theory Spec2Isabelle
  imports Complex_Main "HOL-Library.Multiset"
begin

section \<open>Values, exceptions and Python list primitives\<close>

text \<open>
  The scanner is a Python program. Its floats are modelled as the reals (exact arithmetic,
  no rounding error, no infinities or NaN); its exceptions are values of type \<open>exn\<close>, and a
  computation that may raise has a result of type \<open>exn + 'a\<close> with \<open>Inl\<close> for the raise.
\<close>

datatype exn =
    IndexError | ValueError | TypeError | KeyError | AttributeError
  | ZeroDivisionError | RequestException

fun bind_exn :: "exn + 'a \<Rightarrow> ('a \<Rightarrow> exn + 'b) \<Rightarrow> exn + 'b" where
  "bind_exn (Inl e) f = Inl e"
| "bind_exn (Inr v) f = f v"

text \<open>
  A cell of a candle row as the conversions \<open>int(...)\<close> and \<open>float(...)\<close> see it: a JSON
  number, a text holding an integer literal, a text holding another decimal literal, or
  anything else (other text, null, a nested value).
\<close>

datatype cell = JInt int | JFloat real | IntText int | DecText real | Junk

type_synonym row = "cell list"

fun to_float :: "cell \<Rightarrow> exn + real" where
  "to_float (JInt n) = Inr (of_int n)"
| "to_float (JFloat x) = Inr x"
| "to_float (IntText n) = Inr (of_int n)"
| "to_float (DecText x) = Inr x"
| "to_float Junk = Inl ValueError"

fun to_int :: "cell \<Rightarrow> exn + int" where
  "to_int (JInt n) = Inr n"
| "to_int (JFloat x) = Inr (if 0 \<le> x then \<lfloor>x\<rfloor> else \<lceil>x\<rceil>)"
| "to_int (IntText n) = Inr n"
| "to_int (DecText x) = Inl ValueError"
| "to_int Junk = Inl ValueError"

text \<open>\<open>xs[i]\<close>: an index from \<open>-len(xs)\<close> to \<open>len(xs) - 1\<close> reads an element, a
  negative one counting from the end; any other index raises.\<close>

definition py_index :: "'a list \<Rightarrow> int \<Rightarrow> exn + 'a" where
  "py_index xs i =
     (if 0 \<le> i \<and> i < int (length xs) then Inr (xs ! nat i)
      else if i < 0 \<and> - int (length xs) \<le> i then Inr (xs ! nat (int (length xs) + i))
      else Inl IndexError)"

text \<open>\<open>float(c[i])\<close> and \<open>int(c[i])\<close>, and a list comprehension whose element
  expression may raise: it raises at the first element that does.\<close>

definition float_at :: "row \<Rightarrow> int \<Rightarrow> exn + real" where
  "float_at c i = bind_exn (py_index c i) to_float"

definition int_at :: "row \<Rightarrow> int \<Rightarrow> exn + int" where
  "int_at c i = bind_exn (py_index c i) to_int"

fun map_exn :: "('a \<Rightarrow> exn + 'b) \<Rightarrow> 'a list \<Rightarrow> exn + 'b list" where
  "map_exn f [] = Inr []"
| "map_exn f (x # xs) =
     bind_exn (f x) (\<lambda>y. bind_exn (map_exn f xs) (\<lambda>ys. Inr (y # ys)))"

definition slice_bound :: "nat \<Rightarrow> int \<Rightarrow> nat" where
  "slice_bound n i = (if i < 0 then nat (max (int n + i) 0) else min (nat i) n)"

definition py_slice :: "'a list \<Rightarrow> int \<Rightarrow> int \<Rightarrow> 'a list" where
  "py_slice xs i j =
     (let a = slice_bound (length xs) i; b = slice_bound (length xs) j
      in take (b - a) (drop a xs))"

definition py_slice_from :: "'a list \<Rightarrow> int \<Rightarrow> 'a list" where
  "py_slice_from xs i = drop (slice_bound (length xs) i) xs"

fun py_min :: "real list \<Rightarrow> exn + real" where
  "py_min [] = Inl ValueError"
| "py_min (x # xs) = Inr (fold min xs x)"

definition py_div :: "real \<Rightarrow> real \<Rightarrow> exn + real" where
  "py_div a b = (if b = 0 then Inl ZeroDivisionError else Inr (a / b))"

text \<open>\<open>round(x, n)\<close> rounds to \<open>n\<close> decimals, a tie going to the even neighbour. On
  the reals a tie is a tie of the decimal value; Python decides it on the binary value of
  the float.\<close>

definition round_half_even :: "real \<Rightarrow> int" where
  "round_half_even x =
     (let f = \<lfloor>x\<rfloor>; d = x - of_int f
      in if d < 1 / 2 then f else if 1 / 2 < d then f + 1
         else if even f then f else f + 1)"

definition py_round :: "real \<Rightarrow> nat \<Rightarrow> real" where
  "py_round x n = of_int (round_half_even (x * 10 ^ n)) / 10 ^ n"

section \<open>Volume spike detection\<close>

definition VOLUME_SPIKE_MULTIPLIER :: real where
  "VOLUME_SPIKE_MULTIPLIER = 18 / 10"

record signal =
  ratio :: real
  pct_from_low :: real

text \<open>The comprehension \<open>[float(k[i]) for k in klines]\<close>: it raises at the first row that
  has no cell \<open>i\<close> or whose cell does not convert.\<close>

definition float_col :: "int \<Rightarrow> row list \<Rightarrow> exn + real list" where
  "float_col i klines = map_exn (\<lambda>k. float_at k i) klines"

text \<open>The body of the \<open>try\<close> block of \<open>detect_volume_spike\<close>; \<open>Inr None\<close> is an early
  \<open>return None\<close>, \<open>Inl e\<close> an exception raised inside the block.\<close>

definition detect_body :: "row list \<Rightarrow> exn + signal option" where
  "detect_body klines =
     bind_exn (float_col 5 klines) (\<lambda>vols.
     bind_exn (float_col 4 klines) (\<lambda>closes.
     bind_exn (float_col 3 klines) (\<lambda>lows.
     let avg_vol = sum_list (py_slice vols (- 21) (- 1)) / 20 in
     bind_exn (py_index vols (- 1)) (\<lambda>curr_vol.
     if avg_vol \<le> 0 then Inr None else
     bind_exn (py_div curr_vol avg_vol) (\<lambda>ratio.
     if ratio < VOLUME_SPIKE_MULTIPLIER then Inr None else
     bind_exn (py_index vols (- 1)) (\<lambda>v1.
     bind_exn (py_index vols (- 2)) (\<lambda>v2.
     if \<not> v2 < v1 then Inr None else
     let avg_price_10 = sum_list (py_slice closes (- 11) (- 1)) / 10 in
     bind_exn (py_index closes (- 1)) (\<lambda>curr_price.
     if avg_price_10 * (105 / 100) < curr_price then Inr None else
     bind_exn (if 30 \<le> length lows then py_min (py_slice_from lows (- 30)) else py_min lows)
       (\<lambda>low_30.
     if low_30 \<le> 0 then Inr None else
     bind_exn (py_div (curr_price - low_30) low_30) (\<lambda>q.
     let pct = q * 100 in
     if 40 < pct then Inr None else
     Inr (Some \<lparr>ratio = py_round ratio 2, pct_from_low = py_round pct 1\<rparr>)))))))))))"

text \<open>\<open>detect_volume_spike(symbol, klines)\<close>: the length guard, then the \<open>try\<close> block whose
  \<open>except Exception: pass\<close> turns every exception into the final \<open>return None\<close>. The
  result type keeps the exception case, so that "nothing propagates" is a theorem and not a
  matter of typing.\<close>

definition detect_volume_spike :: "'sym \<Rightarrow> row list \<Rightarrow> exn + signal option" where
  "detect_volume_spike symbol klines =
     (if klines = [] \<or> length klines < 22 then Inr None
      else case detect_body klines of
             Inl e \<Rightarrow> Inr None
           | Inr r \<Rightarrow> Inr r)"

text \<open>A candle of the data model, and the canonical row
  \<open>[timestamp, open, high, low, close, volume]\<close> the adapters build for it.\<close>

record candle =
  c_time :: int
  c_open :: real
  c_high :: real
  c_low :: real
  c_close :: real
  c_volume :: real

definition canonical :: "candle \<Rightarrow> row" where
  "canonical c = [JInt (c_time c), JFloat (c_open c), JFloat (c_high c), JFloat (c_low c),
                  JFloat (c_close c), JFloat (c_volume c)]"

section \<open>Exchange replies\<close>

text \<open>
  What \<open>requests.get\<close> gives for one request: it raises (timeout, connection error), or
  it returns a reply with its \<open>ok\<close> flag and a body. A candle body is read through
  \<open>r.json().get('data', [])\<close> (KuCoin, OKX) or \<open>r.json()\<close> (Binance): \<open>BadJson\<close> is a
  body on which that expression raises, \<open>NoRows\<close> a body that decodes but holds no list
  there (\<open>data\<close> is null; for Binance the top-level value is not a list, as in its error
  objects), \<open>Rows\<close> the list of rows (empty when the key is missing).
\<close>

datatype payload = BadJson | NoRows | Rows "row list"

datatype response = Failed | Http bool payload

datatype exchange = KuCoin | OKX | BinanceSpot | BinanceFutures

type_synonym 'sym market = "exchange \<Rightarrow> 'sym \<Rightarrow> response"

text \<open>The row each adapter builds, in the order Python evaluates the list display.
  KuCoin rows are \<open>[time, open, close, high, low, volume, turnover]\<close> with the time in
  seconds; OKX rows are already in canonical order; Binance rows keep the first cell as
  it came.\<close>

definition kucoin_row :: "row \<Rightarrow> exn + row" where
  "kucoin_row c =
     bind_exn (int_at c 0) (\<lambda>t.
     bind_exn (float_at c 1) (\<lambda>o1.
     bind_exn (float_at c 3) (\<lambda>h.
     bind_exn (float_at c 4) (\<lambda>l.
     bind_exn (float_at c 2) (\<lambda>cl.
     bind_exn (float_at c 5) (\<lambda>v.
     Inr [JInt (t * 1000), JFloat o1, JFloat h, JFloat l, JFloat cl, JFloat v]))))))"

definition okx_row :: "row \<Rightarrow> exn + row" where
  "okx_row c =
     bind_exn (int_at c 0) (\<lambda>t.
     bind_exn (float_at c 1) (\<lambda>o1.
     bind_exn (float_at c 2) (\<lambda>h.
     bind_exn (float_at c 3) (\<lambda>l.
     bind_exn (float_at c 4) (\<lambda>cl.
     bind_exn (float_at c 5) (\<lambda>v.
     Inr [JInt t, JFloat o1, JFloat h, JFloat l, JFloat cl, JFloat v]))))))"

definition binance_row :: "row \<Rightarrow> exn + row" where
  "binance_row c =
     bind_exn (py_index c 0) (\<lambda>t.
     bind_exn (float_at c 1) (\<lambda>o1.
     bind_exn (float_at c 2) (\<lambda>h.
     bind_exn (float_at c 3) (\<lambda>l.
     bind_exn (float_at c 4) (\<lambda>cl.
     bind_exn (float_at c 5) (\<lambda>v.
     Inr [t, JFloat o1, JFloat h, JFloat l, JFloat cl, JFloat v]))))))"

section \<open>The monitor scan\<close>

definition ALERT_COOLDOWN_SECONDS :: real where
  "ALERT_COOLDOWN_SECONDS = 7200"

record 'sym alert =
  a_sym :: 'sym
  a_spike :: real
  a_pct_from_low :: real
  a_price :: real
  a_source :: string

text \<open>The cooldown test at the head of \<open>check_coin\<close>,
  \<open>now - _last_alert_time.get(sym, 0) < ALERT_COOLDOWN_SECONDS\<close>, and the assignment
  \<open>_last_alert_time[sym] = now\<close> of the collecting loop.\<close>

definition should_skip :: "('sym \<rightharpoonup> real) \<Rightarrow> 'sym \<Rightarrow> real \<Rightarrow> bool" where
  "should_skip last_alert_time s now =
     (now - (case last_alert_time s of None \<Rightarrow> 0 | Some t \<Rightarrow> t) < ALERT_COOLDOWN_SECONDS)"

definition record_alert :: "('sym \<rightharpoonup> real) \<Rightarrow> 'sym \<Rightarrow> real \<Rightarrow> ('sym \<rightharpoonup> real)" where
  "record_alert last_alert_time s now = last_alert_time(s \<mapsto> now)"

text \<open>One exchange's part of \<open>check_coin\<close>, after the request: \<open>Inl e\<close> is an exception
  (it leaves the whole \<open>try\<close> block), \<open>Inr None\<close> falls through to the code after the part,
  \<open>Inr (Some a)\<close> is a \<open>return\<close> of the alert. \<open>len(data)\<close> raises on a null \<open>data\<close>.
  The price \<open>klines[-1][4]\<close> is the float that the row conversion stored in that cell.\<close>

definition check_source ::
  "'sym \<Rightarrow> string \<Rightarrow> (row \<Rightarrow> exn + row) \<Rightarrow> response \<Rightarrow> exn + 'sym alert option" where
  "check_source s tag conv r =
     (case r of
        Failed \<Rightarrow> Inl RequestException
      | Http ok body \<Rightarrow>
          if \<not> ok then Inr None
          else (case body of
                  BadJson \<Rightarrow> Inl ValueError
                | NoRows \<Rightarrow> Inl TypeError
                | Rows rows \<Rightarrow>
                    if length rows < 22 then Inr None
                    else
                      bind_exn (map_exn conv (rev rows)) (\<lambda>klines.
                      bind_exn (detect_volume_spike s klines) (\<lambda>spike.
                      case spike of
                        None \<Rightarrow> Inr None
                      | Some sp \<Rightarrow>
                          bind_exn (py_index klines (- 1)) (\<lambda>k.
                          bind_exn (float_at k 4) (\<lambda>price.
                          Inr (Some \<lparr>a_sym = s, a_spike = ratio sp,
                                     a_pct_from_low = pct_from_low sp,
                                     a_price = price, a_source = tag\<rparr>)))))))"

text \<open>\<open>check_coin(sym)\<close>: the cooldown test, then KuCoin and OKX inside one \<open>try\<close> block
  whose handler prints and lets the function return \<open>None\<close>. The first component lists
  the exchanges that were sent a request, in order.\<close>

definition check_coin ::
  "('sym \<rightharpoonup> real) \<Rightarrow> real \<Rightarrow> 'sym market \<Rightarrow> 'sym \<Rightarrow> exchange list \<times> 'sym alert option" where
  "check_coin last_alert_time now env s =
     (if should_skip last_alert_time s now then ([], None)
      else case check_source s ''KuCoin'' kucoin_row (env KuCoin s) of
             Inl e \<Rightarrow> ([KuCoin], None)
           | Inr (Some a) \<Rightarrow> ([KuCoin], Some a)
           | Inr None \<Rightarrow>
               (case check_source s ''OKX'' okx_row (env OKX s) of
                  Inl e \<Rightarrow> ([KuCoin, OKX], None)
                | Inr r \<Rightarrow> ([KuCoin, OKX], r)))"

subsection \<open>Telegram\<close>

record telegram =
  TELEGRAM_BOT_TOKEN :: string
  TELEGRAM_CHAT_ID :: string

datatype post_result = PostRaises | PostStatus bool

text \<open>\<open>send_telegram(message)\<close> returns whether the Bot API accepted the message; the
  second component lists the messages it passed to \<open>requests.post\<close>. The argument \<open>post\<close>
  is what \<open>requests.post\<close> does when it is called: it raises, or it returns a reply with
  its \<open>ok\<close> flag.\<close>

definition send_telegram ::
  "telegram \<Rightarrow> post_result \<Rightarrow> 'm \<Rightarrow> bool \<times> 'm list" where
  "send_telegram cfg post message =
     (if TELEGRAM_BOT_TOKEN cfg = [] \<or> TELEGRAM_CHAT_ID cfg = [] then (False, [])
      else case post of
             PostRaises \<Rightarrow> (False, [message])
           | PostStatus ok \<Rightarrow> (ok, [message]))"

subsection \<open>Collecting, ranking and notifying\<close>

text \<open>The loop \<open>for result in results\<close>: every result that is not \<open>None\<close> is appended to
  \<open>alerts\<close> and stamps its symbol in \<open>_last_alert_time\<close>.\<close>

fun collect_alerts ::
  "real \<Rightarrow> 'sym alert option list \<Rightarrow> 'sym alert list \<times> ('sym \<rightharpoonup> real) \<Rightarrow>
   'sym alert list \<times> ('sym \<rightharpoonup> real)" where
  "collect_alerts now [] (alerts, last_alert_time) = (alerts, last_alert_time)"
| "collect_alerts now (None # results) (alerts, last_alert_time) =
     collect_alerts now results (alerts, last_alert_time)"
| "collect_alerts now (Some a # results) (alerts, last_alert_time) =
     collect_alerts now results (alerts @ [a], record_alert last_alert_time (a_sym a) now)"

text \<open>\<open>alerts.sort(key=lambda x: x['spike'], reverse=True)\<close>: Python's sort is stable, and
  with \<open>reverse=True\<close> it reverses the list, sorts it ascending and reverses the result, so
  that equal keys keep their original order.\<close>

definition sort_spike_desc :: "'sym alert list \<Rightarrow> 'sym alert list" where
  "sort_spike_desc alerts = rev (sort_key a_spike (rev alerts))"

text \<open>The outcome of one scan: the cooldown map after it, the batch handed to
  \<open>send_telegram\<close> (\<open>None\<close> when it was not called), what \<open>send_telegram\<close> returned, and
  the messages posted to the Bot API. The message text is rendered from the batch
  \<open>alerts[:10]\<close>, three header lines and then the lines of each alert in order; the model
  keeps the batch and leaves the rendering out.\<close>

record 'sym scan_outcome =
  cooldown :: "'sym \<rightharpoonup> real"
  handed :: "'sym alert list option"
  delivered :: bool
  posts :: "'sym alert list list"

definition process_results ::
  "telegram \<Rightarrow> post_result \<Rightarrow> ('sym \<rightharpoonup> real) \<Rightarrow> real \<Rightarrow>
   'sym alert option list \<Rightarrow> 'sym scan_outcome" where
  "process_results cfg post last_alert_time now results =
     (case collect_alerts now results ([], last_alert_time) of
        (alerts, last') \<Rightarrow>
          if alerts \<noteq> [] then
            (let batch = take 10 (sort_spike_desc alerts)
             in case send_telegram cfg post batch of
                  (ok, posted) \<Rightarrow>
                    \<lparr>cooldown = last', handed = Some batch, delivered = ok, posts = posted\<rparr>)
          else \<lparr>cooldown = last', handed = None, delivered = False, posts = []\<rparr>)"

text \<open>\<open>run_monitor_scan()\<close>: \<open>executor.map(check_coin, MONITOR_COINS)\<close> yields the results in
  the order of the universe, and every \<open>check_coin\<close> reads the cooldown map as it was before
  the scan, since the map is written only once all results are in.\<close>

definition run_monitor_scan ::
  "telegram \<Rightarrow> post_result \<Rightarrow> 'sym market \<Rightarrow> ('sym \<rightharpoonup> real) \<Rightarrow>
   'sym list \<Rightarrow> real \<Rightarrow> 'sym scan_outcome" where
  "run_monitor_scan cfg post env last_alert_time monitor_coins now =
     process_results cfg post last_alert_time now
       (map (\<lambda>s. snd (check_coin last_alert_time now env s)) monitor_coins)"

section \<open>The candle resolver of the crypto route\<close>

record crypto_data =
  data_klines :: "row list"
  data_type :: string
  data_source :: string

text \<open>The inner loop of the KuCoin and OKX parts of \<open>fetch_one_crypto\<close>: a row whose
  conversion raises is skipped.\<close>

fun convert_rows :: "(row \<Rightarrow> exn + row) \<Rightarrow> row list \<Rightarrow> row list" where
  "convert_rows conv [] = []"
| "convert_rows conv (c # cs) =
     (case conv c of Inl e \<Rightarrow> convert_rows conv cs | Inr k \<Rightarrow> k # convert_rows conv cs)"

definition kx_part :: "string \<Rightarrow> (row \<Rightarrow> exn + row) \<Rightarrow> response \<Rightarrow> exn + crypto_data option" where
  "kx_part tag conv r =
     (case r of
        Failed \<Rightarrow> Inl RequestException
      | Http ok body \<Rightarrow>
          if \<not> ok then Inr None
          else (case body of
                  BadJson \<Rightarrow> Inl ValueError
                | NoRows \<Rightarrow> Inr None
                | Rows candles \<Rightarrow>
                    if candles \<noteq> [] \<and> 20 \<le> length candles then
                      (let klines = convert_rows conv (rev candles)
                       in if 20 \<le> length klines
                          then Inr (Some \<lparr>data_klines = klines, data_type = ''crypto'',
                                          data_source = tag\<rparr>)
                          else Inr None)
                    else Inr None))"

definition binance_part :: "string \<Rightarrow> response \<Rightarrow> exn + crypto_data option" where
  "binance_part tag r =
     (case r of
        Failed \<Rightarrow> Inl RequestException
      | Http ok body \<Rightarrow>
          if \<not> ok then Inr None
          else (case body of
                  BadJson \<Rightarrow> Inl ValueError
                | NoRows \<Rightarrow> Inr None
                | Rows data \<Rightarrow>
                    if 20 \<le> length data then
                      bind_exn (map_exn binance_row data) (\<lambda>klines.
                      Inr (Some \<lparr>data_klines = klines, data_type = ''crypto'',
                                 data_source = tag\<rparr>))
                    else Inr None))"

text \<open>Each part of \<open>fetch_one_crypto\<close> sits in a \<open>try\<close> block of its own, whose handler
  prints and goes on to the next part.\<close>

definition attempt :: "exn + 'a option \<Rightarrow> 'a option" where
  "attempt m = (case m of Inl e \<Rightarrow> None | Inr r \<Rightarrow> r)"

definition fetch_one_crypto ::
  "'sym market \<Rightarrow> 'sym \<Rightarrow> exchange list \<times> 'sym \<times> crypto_data option" where
  "fetch_one_crypto env s =
     (case attempt (kx_part ''kucoin'' kucoin_row (env KuCoin s)) of
        Some d \<Rightarrow> ([KuCoin], s, Some d)
      | None \<Rightarrow>
     (case attempt (kx_part ''okx'' okx_row (env OKX s)) of
        Some d \<Rightarrow> ([KuCoin, OKX], s, Some d)
      | None \<Rightarrow>
     (case attempt (binance_part ''binance_spot'' (env BinanceSpot s)) of
        Some d \<Rightarrow> ([KuCoin, OKX, BinanceSpot], s, Some d)
      | None \<Rightarrow>
     (case attempt (binance_part ''binance_futures'' (env BinanceFutures s)) of
        Some d \<Rightarrow> ([KuCoin, OKX, BinanceSpot, BinanceFutures], s, Some d)
      | None \<Rightarrow> ([KuCoin, OKX, BinanceSpot, BinanceFutures], s, None)))))"

section \<open>The monitored universe\<close>

text \<open>
  A listing reply: the request raises, or a reply comes with its \<open>ok\<close> flag and a body.
  \<open>Unreadable\<close> is a body on which \<open>r.json()\<close>, the \<open>.get\<close> of the instrument list or the
  iteration over it raises; \<open>Entries\<close> is the instrument list (empty when the key is
  missing). An entry is a JSON object, given by its fields, or some other JSON value; a
  field holds a text, a boolean or null.
\<close>

datatype jv = JS string | JB bool | JNull

datatype entry = NotObject | Obj "(string \<times> jv) list"

datatype listing_body = Unreadable | Entries "entry list"

datatype listing = ListingFailed | Listing bool listing_body

record listings =
  binance_info :: listing
  kucoin_symbols :: listing
  okx_instruments :: listing

definition MONITOR_COINS_BUILTIN :: "jv list" where
  "MONITOR_COINS_BUILTIN = map JS
    [''BTC'',''ETH'',''BNB'',''XRP'',''SOL'',''ADA'',''DOGE'',''TRX'',''DOT'',''LTC'',
     ''SHIB'',''AVAX'',''LINK'',''ATOM'',''UNI'',''XLM'',''BCH'',''ALGO'',''ICP'',''HBAR'',
     ''APT'',''ARB'',''NEAR'',''GRT'',''AAVE'',''INJ'',''OP'',''SUI'',''SEI'',''TIA'',
     ''RUNE'',''PENDLE'',''JUP'',''WIF'',''BONK'',''FLOKI'',''PEPE'',''TON'',''KAS'',''TAO'',
     ''IMX'',''RNDR'',''FIL'',''THETA'',''EGLD'',''MINA'',''SAND'',''MANA'',''AXS'',''CHZ'',
     ''ENJ'',''GALA'',''GMT'',''GMX'',''DYDX'',''LDO'',''CRV'',''COMP'',''SNX'',''STX'',
     ''BLUR'',''KAVA'',''ROSE'',''ANKR'',''ZIL'',''ETC'',''VET'',''1INCH'',''CAKE'',''FTM'',
     ''MAGIC'',''PYTH'',''JTO'',''STRK'',''METIS'',''API3'',''MASK'',''ALICE'',''GLMR'',''KSM'',
     ''ZRX'',''BAT'',''OMG'',''BNT'',''STORJ'',''KNC'',''WAVES'',''QTUM'',''ICX'',''LSK'',
     ''JASMY'',''HIGH'',''LQTY'',''RPL'',''SSV'',''RDNT'',''GNS'',''HOOK'',''ACE'',''XAI'',
     ''MANTA'',''ALT'',''PIXEL'',''PORTAL'',''ZETA'',''DYM'',''TNSR'',''REZ'',''BB'',''NOT'',
     ''IO'',''ZK'',''WLD'',''ETHFI'',''EIGEN'',''HMSTR'',''CATI'',''NEIRO'',''SCR'',''DOGS'',
     ''PNUT'',''ACT'',''GOAT'',''MOODENG'',''TURBO'',''BRETT'',''ENA'',''SAGA'',''BOME'',''MEW'',
     ''NEAR'',''AVAX'',''LINK'',''UNI'',''MKR'',''AAVE'',''SNX'',''CRV'',''YFI'',''SUSHI'',
     ''BAL'',''UMA'',''GRT'',''LDO'',''CVX'',''DYDX'',''PERP'',''GNS'',''JOE'',''PENDLE'']"

definition EXCLUDE :: "jv set" where
  "EXCLUDE = JS ` {''USDT'',''USDC'',''BUSD'',''TUSD'',''USDD'',''USDP'',''FDUSD'',''DAI'',''FRAX'',
               ''LUSD'',''PYUSD'',''GUSD'',''SUSD'',''USDB'',''USDX'',''EURC'',''WBTC'',''WETH'',
               ''WBNB'',''STETH'',''WSTETH'',''CBETH'',''RETH'',''BETH'',''BTCB'',''HBTC''}"

text \<open>\<open>s.get(key)\<close>, \<open>s[key]\<close> and the truth value of \<open>s.get(key, False)\<close>.\<close>

definition get_field :: "entry \<Rightarrow> string \<Rightarrow> exn + jv option" where
  "get_field s k = (case s of NotObject \<Rightarrow> Inl AttributeError | Obj kvs \<Rightarrow> Inr (map_of kvs k))"

definition item :: "entry \<Rightarrow> string \<Rightarrow> exn + jv" where
  "item s k =
     (case s of
        NotObject \<Rightarrow> Inl TypeError
      | Obj kvs \<Rightarrow> (case map_of kvs k of None \<Rightarrow> Inl KeyError | Some v \<Rightarrow> Inr v))"

fun truthy :: "jv option \<Rightarrow> bool" where
  "truthy None = False"
| "truthy (Some (JS t)) = (t \<noteq> [])"
| "truthy (Some (JB b)) = b"
| "truthy (Some JNull) = False"

text \<open>The filters of the three loops; \<open>and\<close> evaluates left to right and stops at the
  first false operand.\<close>

definition binance_accept :: "entry \<Rightarrow> exn + bool" where
  "binance_accept s =
     bind_exn (get_field s ''quoteAsset'') (\<lambda>q.
     if q \<noteq> Some (JS ''USDT'') then Inr False else
     bind_exn (get_field s ''status'') (\<lambda>st.
     if st \<noteq> Some (JS ''TRADING'') then Inr False else
     bind_exn (get_field s ''isSpotTradingAllowed'') (\<lambda>a. Inr (truthy a))))"

definition kucoin_accept :: "entry \<Rightarrow> exn + bool" where
  "kucoin_accept s =
     bind_exn (get_field s ''quoteCurrency'') (\<lambda>q.
     if q \<noteq> Some (JS ''USDT'') then Inr False else
     bind_exn (get_field s ''enableTrading'') (\<lambda>a. Inr (truthy a)))"

definition okx_accept :: "entry \<Rightarrow> exn + bool" where
  "okx_accept s =
     bind_exn (get_field s ''quoteCcy'') (\<lambda>q.
     if q \<noteq> Some (JS ''USDT'') then Inr False else
     bind_exn (get_field s ''state'') (\<lambda>st. Inr (st = Some (JS ''live''))))"

text \<open>One \<open>for s in ...\<close> loop: it appends to the list \<open>coins\<close> it is given and stops at the
  first exception, leaving in \<open>coins\<close> what it appended until then.\<close>

fun collect_bases ::
  "(entry \<Rightarrow> exn + bool) \<Rightarrow> string \<Rightarrow> entry list \<Rightarrow> jv set \<Rightarrow> jv list \<Rightarrow> exn option \<times> jv list" where
  "collect_bases accept key [] seen coins = (None, coins)"
| "collect_bases accept key (s # rest) seen coins =
     (case accept s of
        Inl e \<Rightarrow> (Some e, coins)
      | Inr False \<Rightarrow> collect_bases accept key rest seen coins
      | Inr True \<Rightarrow>
          (case item s key of
             Inl e \<Rightarrow> (Some e, coins)
           | Inr base \<Rightarrow>
               if base \<notin> seen \<and> base \<notin> EXCLUDE
               then collect_bases accept key rest (insert base seen) (coins @ [base])
               else collect_bases accept key rest seen coins))"

text \<open>One \<open>try\<close> block of \<open>fetch_monitor_coins\<close>, with a fresh \<open>seen\<close> and the function's one
  list \<open>coins\<close>: the list after the block, and whether the block assigned it to
  \<open>MONITOR_COINS\<close> and returned.\<close>

definition try_listing ::
  "(entry \<Rightarrow> exn + bool) \<Rightarrow> string \<Rightarrow> listing \<Rightarrow> jv list \<Rightarrow> jv list \<times> bool" where
  "try_listing accept key r coins =
     (case r of
        ListingFailed \<Rightarrow> (coins, False)
      | Listing ok body \<Rightarrow>
          if \<not> ok then (coins, False)
          else (case body of
                  Unreadable \<Rightarrow> (coins, False)
                | Entries es \<Rightarrow>
                    (case collect_bases accept key es {} coins of
                       (Some e, coins') \<Rightarrow> (coins', False)
                     | (None, coins') \<Rightarrow> (coins', coins' \<noteq> []))))"

text \<open>\<open>fetch_monitor_coins()\<close>: the value of \<open>MONITOR_COINS\<close> after the call, given its
  value before.\<close>

definition fetch_monitor_coins :: "listings \<Rightarrow> jv list \<Rightarrow> jv list" where
  "fetch_monitor_coins env monitor_coins =
     (case try_listing binance_accept ''baseAsset'' (binance_info env) [] of
        (coins1, done1) \<Rightarrow>
          if done1 then coins1
          else (case try_listing kucoin_accept ''baseCurrency'' (kucoin_symbols env) coins1 of
                  (coins2, done2) \<Rightarrow>
                    if done2 then coins2
                    else (case try_listing okx_accept ''baseCcy'' (okx_instruments env) coins2 of
                            (coins3, done3) \<Rightarrow>
                              if done3 then coins3 else monitor_coins)))"

section \<open>Properties of the spike detector\<close>

subsection \<open>Python primitives\<close>


lemma bind_exn_eq_Inr:
  "bind_exn m f = Inr r \<longleftrightarrow> (\<exists>v. m = Inr v \<and> f v = Inr r)"
  by (cases m) simp_all

lemma map_exn_length: "map_exn f xs = Inr ys \<Longrightarrow> length ys = length xs"
proof (induction xs arbitrary: ys)
  case Nil
  then show ?case by simp
next
  case (Cons x xs)
  then show ?case by (auto simp: bind_exn_eq_Inr)
qed

lemma map_exn_map:
  "list_all (\<lambda>x. f (h x) = Inr (g x)) xs \<Longrightarrow> map_exn f (map h xs) = Inr (map g xs)"
  by (induction xs) simp_all


lemma py_slice_neg:
  "a \<le> length xs \<Longrightarrow> b \<le> a \<Longrightarrow> 0 < b \<Longrightarrow>
   py_slice xs (- int a) (- int b) = take (a - b) (drop (length xs - a) xs)"
  by (auto simp: py_slice_def slice_bound_def Let_def nat_diff_distrib' split: if_splits)

lemma py_slice_from_neg:
  "0 < a \<Longrightarrow> a \<le> length xs \<Longrightarrow> py_slice_from xs (- int a) = drop (length xs - a) xs"
  by (auto simp: py_slice_from_def slice_bound_def nat_diff_distrib')

lemma py_index_neg:
  "0 < a \<Longrightarrow> a \<le> length xs \<Longrightarrow> py_index xs (- int a) = Inr (xs ! (length xs - a))"
  by (auto simp: py_index_def Let_def nat_diff_distrib')

lemma py_min_Min:
  assumes "xs \<noteq> []"
  shows "py_min xs = Inr (Min (set xs))"
proof (cases xs)
  case Nil
  with assms show ?thesis by simp
next
  case (Cons a list)
  then show ?thesis using Min.set_eq_fold [of a list] by simp
qed

lemma round_half_even_of_int: "round_half_even (of_int k) = k"
  by (simp add: round_half_even_def)

lemma py_round_two: "py_round 2 2 = 2"
  using round_half_even_of_int [of 200] by (simp add: py_round_def)

lemma round_half_even_error: "\<bar>of_int (round_half_even y) - y\<bar> \<le> 1 / 2"
  unfolding round_half_even_def Let_def by (auto; linarith)

lemma py_round_error: "\<bar>py_round x n - x\<bar> \<le> (1 / 2) / 10 ^ n"
proof -
  define p :: real where "p = 10 ^ n"
  have p: "0 < p" by (simp add: p_def)
  define r :: real where "r = of_int (round_half_even (x * p))"
  have "r / p - x = (r - x * p) / p" using p by (simp add: field_simps)
  hence "\<bar>r / p - x\<bar> = \<bar>r - x * p\<bar> / p" using p by simp
  also have "\<dots> \<le> (1 / 2) / p"
    using round_half_even_error [of "x * p"] p unfolding r_def
    by (intro divide_right_mono) simp_all
  finally show ?thesis by (simp add: py_round_def p_def r_def)
qed

subsection \<open>The detector\<close>

text \<open>
  Claim C2. For every candle series of length strictly less than 22, the empty series
  included, \<open>detect_volume_spike\<close> returns \<open>None\<close>, whatever the rows hold.
\<close>

theorem detect_short_series_absent:
  "length klines < 22 \<Longrightarrow> detect_volume_spike symbol klines = Inr None"
  by (simp add: detect_volume_spike_def)

theorem detect_short_series_absent_witness:
  "length [[Junk], [JInt 1, JFloat 2]] < 22 \<and>
   detect_volume_spike ''BTC'' [[Junk], [JInt 1, JFloat 2]] = Inr None"
  using detect_short_series_absent [of "[[Junk], [JInt 1, JFloat 2]]" "''BTC''"] by simp

lemma float_at_canonical:
  "float_at (canonical c) 5 = Inr (c_volume c)"
  "float_at (canonical c) 4 = Inr (c_close c)"
  "float_at (canonical c) 3 = Inr (c_low c)"
  by (simp_all add: float_at_def canonical_def py_index_def)

lemma float_col_canonical:
  "float_col 5 (map canonical cs) = Inr (map c_volume cs)"
  "float_col 4 (map canonical cs) = Inr (map c_close cs)"
  "float_col 3 (map canonical cs) = Inr (map c_low cs)"
  unfolding float_col_def
  by (rule map_exn_map, simp add: float_at_canonical list_all_iff)+









lemma detect_canonical:
  fixes cs :: "candle list"
  assumes len: "22 \<le> length cs"
    and cur: "cur = last cs"
    and prev: "prev = cs ! (length cs - 2)"
    and avg_vol: "avg_vol = sum_list (map c_volume (take 20 (drop (length cs - 21) cs))) / 20"
    and avg_close: "avg_close = sum_list (map c_close (take 10 (drop (length cs - 11) cs))) / 10"
    and low: "low = Min (c_low ` set (drop (length cs - 30) cs))"
    and avg_pos: "0 < avg_vol"
    and low_pos: "0 < low"
    and spike: "VOLUME_SPIKE_MULTIPLIER \<le> c_volume cur / avg_vol"
    and rising: "c_volume prev < c_volume cur"
    and not_pumped: "c_close cur \<le> (105 / 100) * avg_close"
    and near_low: "(c_close cur - low) / low * 100 \<le> 40"
  shows "detect_volume_spike symbol (map canonical cs) =
           Inr (Some \<lparr>ratio = py_round (c_volume cur / avg_vol) 2,
                      pct_from_low = py_round ((c_close cur - low) / low * 100) 1\<rparr>)"
proof -
  let ?n = "length cs"
  let ?vols = "map c_volume cs" and ?closes = "map c_close cs" and ?lows = "map c_low cs"
  have ne: "cs \<noteq> []" using len by auto
  have s1: "py_slice ?vols (- 21) (- 1) = map c_volume (take 20 (drop (?n - 21) cs))"
    using py_slice_neg [of 21 ?vols 1] len by (simp add: take_map drop_map)
  have s2: "py_slice ?closes (- 11) (- 1) = map c_close (take 10 (drop (?n - 11) cs))"
    using py_slice_neg [of 11 ?closes 1] len by (simp add: take_map drop_map)
  have i1: "py_index ?vols (- 1) = Inr (c_volume cur)"
    using py_index_neg [of 1 ?vols] len ne by (simp add: cur last_conv_nth)
  have i2: "py_index ?vols (- 2) = Inr (c_volume prev)"
    using py_index_neg [of 2 ?vols] len by (simp add: prev)
  have i3: "py_index ?closes (- 1) = Inr (c_close cur)"
    using py_index_neg [of 1 ?closes] len ne by (simp add: cur last_conv_nth)
  have m: "(if 30 \<le> length ?lows then py_min (py_slice_from ?lows (- 30)) else py_min ?lows)
             = Inr low"
  proof (cases "30 \<le> ?n")
    case True
    have "py_slice_from ?lows (- 30) = map c_low (drop (?n - 30) cs)"
      using py_slice_from_neg [of 30 ?lows] True by (simp add: drop_map)
    moreover have "drop (?n - 30) cs \<noteq> []" using True by simp
    ultimately show ?thesis using True by (simp add: py_min_Min low)
  next
    case False
    then show ?thesis using ne by (simp add: py_min_Min low)
  qed
  have d1: "py_div (c_volume cur) avg_vol = Inr (c_volume cur / avg_vol)"
    using avg_pos by (simp add: py_div_def)
  have d2: "py_div (c_close cur - low) low = Inr ((c_close cur - low) / low)"
    using low_pos by (simp add: py_div_def)
  have body: "detect_body (map canonical cs) =
      Inr (Some \<lparr>ratio = py_round (c_volume cur / avg_vol) 2,
                 pct_from_low = py_round ((c_close cur - low) / low * 100) 1\<rparr>)"
    unfolding detect_body_def float_col_canonical bind_exn.simps Let_def s1 s2 i1 i2 i3 m
      avg_vol [symmetric] avg_close [symmetric] d1 d2
    using avg_pos low_pos spike rising not_pumped near_low
    by (simp add: mult.commute)
  show ?thesis using len ne by (simp add: detect_volume_spike_def body)
qed





section \<open>Properties of the monitor scan\<close>

subsection \<open>The collecting loop\<close>

lemma collect_alerts_eq:
  "collect_alerts now results (alerts, lat) =
     (alerts @ map the (filter (\<lambda>r. r \<noteq> None) results),
      (\<lambda>s. if \<exists>a. Some a \<in> set results \<and> a_sym a = s then Some now else lat s))"
proof (induction results arbitrary: alerts lat)
  case Nil
  show ?case by simp
next
  case (Cons r results)
  show ?case
  proof (cases r)
    case None
    then show ?thesis by (simp add: Cons.IH)
  next
    case (Some a)
    then show ?thesis by (auto simp: Cons.IH record_alert_def fun_eq_iff)
  qed
qed

lemma alerts_empty_iff:
  "map the (filter (\<lambda>r. r \<noteq> None) results) = [] \<longleftrightarrow> (\<nexists>a. Some a \<in> set results)"
  by (induction results) auto

lemma cooldown_process_results:
  "cooldown (process_results cfg post lat now results) =
     (\<lambda>s. if \<exists>a. Some a \<in> set results \<and> a_sym a = s then Some now else lat s)"
  by (simp add: process_results_def collect_alerts_eq Let_def split: prod.split)

lemma handed_process_results:
  "handed (process_results cfg post lat now results) =
     (if \<exists>a. Some a \<in> set results
      then Some (take 10 (sort_spike_desc (map the (filter (\<lambda>r. r \<noteq> None) results))))
      else None)"
  using alerts_empty_iff [of results]
  by (auto simp add: process_results_def collect_alerts_eq Let_def split: prod.split)

lemma delivered_process_results:
  "delivered (process_results cfg post lat now results) \<longleftrightarrow>
     (\<exists>a. Some a \<in> set results) \<and>
     fst (send_telegram cfg post (take 10 (sort_spike_desc (map the (filter (\<lambda>r. r \<noteq> None) results)))))"
  using alerts_empty_iff [of results]
  by (auto simp add: process_results_def collect_alerts_eq Let_def split: prod.split)

subsection \<open>The cooldown window\<close>

lemma check_coin_skips:
  "should_skip lat s now \<Longrightarrow> check_coin lat now env s = ([], None)"
  by (simp add: check_coin_def)

text \<open>
  Claim C7. The cooldown test holds exactly when \<open>now\<close> minus the stored time (0 for a
  symbol never recorded) is strictly less than the window of 7200 seconds. Recording
  overwrites the stored time; after recording \<open>s\<close> at \<open>t0\<close> the test holds at
  \<open>t0 + window - 1\<close> and fails at \<open>t0 + window + 1\<close>. In the code: \<open>check_coin\<close> returns
  \<open>None\<close> without any request while the test holds, and a scan at \<open>t0\<close> in which a symbol
  alerts leaves a map for which the test holds at \<open>t0 + window - 1\<close> and fails at
  \<open>t0 + window + 1\<close>.
\<close>

theorem cooldown_window:
  "(should_skip lat s now \<longleftrightarrow>
      now - (case lat s of None \<Rightarrow> 0 | Some t \<Rightarrow> t) < ALERT_COOLDOWN_SECONDS) \<and>
   record_alert lat s t0 s = Some t0 \<and>
   should_skip (record_alert lat s t0) s (t0 + ALERT_COOLDOWN_SECONDS - 1) \<and>
   \<not> should_skip (record_alert lat s t0) s (t0 + ALERT_COOLDOWN_SECONDS + 1) \<and>
   (should_skip lat s now \<longrightarrow> check_coin lat now env s = ([], None)) \<and>
   (Some a \<in> set results \<longrightarrow>
      should_skip (cooldown (process_results cfg post lat t0 results)) (a_sym a)
        (t0 + ALERT_COOLDOWN_SECONDS - 1) \<and>
      \<not> should_skip (cooldown (process_results cfg post lat t0 results)) (a_sym a)
        (t0 + ALERT_COOLDOWN_SECONDS + 1))"
  by (auto simp: should_skip_def record_alert_def check_coin_def cooldown_process_results
      ALERT_COOLDOWN_SECONDS_def)

theorem cooldown_window_witness:
  "should_skip [''BTC'' \<mapsto> 1000] ''BTC'' 8199 \<and>
   check_coin [''BTC'' \<mapsto> 1000] 8199 (\<lambda>ex s. Failed) ''BTC'' = ([], None) \<and>
   \<not> should_skip [''BTC'' \<mapsto> 1000] ''BTC'' 8201 \<and>
   \<not> should_skip Map.empty ''BTC'' 8199 \<and>
   should_skip (cooldown (process_results \<lparr>TELEGRAM_BOT_TOKEN = [], TELEGRAM_CHAT_ID = []\<rparr>
       PostRaises [''BTC'' \<mapsto> 1000] 1000
       [Some \<lparr>a_sym = ''BTC'', a_spike = 2, a_pct_from_low = 25, a_price = 100, a_source = ''KuCoin''\<rparr>]))
     ''BTC'' 8199"
proof -
  let ?a = "\<lparr>a_sym = ''BTC'', a_spike = 2, a_pct_from_low = 25, a_price = 100, a_source = ''KuCoin''\<rparr>"
  have s: "should_skip [''BTC'' \<mapsto> 1000] ''BTC'' 8199"
    by (simp add: should_skip_def ALERT_COOLDOWN_SECONDS_def)
  have n: "\<not> should_skip Map.empty ''BTC'' 8199" "\<not> should_skip [''BTC'' \<mapsto> 1000] ''BTC'' 8201"
    by (simp_all add: should_skip_def ALERT_COOLDOWN_SECONDS_def)
  from cooldown_window [of "[''BTC'' \<mapsto> 1000]" "''BTC''" 8199 1000 "\<lambda>ex s. Failed" ?a "[Some ?a]"
      "\<lparr>TELEGRAM_BOT_TOKEN = [], TELEGRAM_CHAT_ID = []\<rparr>" PostRaises] s n
  show ?thesis
    by (simp add: ALERT_COOLDOWN_SECONDS_def)
qed

subsection \<open>Cooldown bookkeeping and delivery\<close>

text \<open>
  Claim C4 as stated, "the cooldown map is updated only after an alert batch is actually
  sent", fails. With Telegram not configured, a scan with one alert stamps the symbol
  although \<open>send_telegram\<close> returns \<open>False\<close> and posts nothing; with Telegram configured
  and the Bot API answering with an error status, the symbol is stamped although
  \<open>send_telegram\<close> returns \<open>False\<close>.
\<close>

theorem cooldown_without_delivery_counterexample:
  "cooldown (process_results \<lparr>TELEGRAM_BOT_TOKEN = [], TELEGRAM_CHAT_ID = []\<rparr>
               (PostStatus True) Map.empty 1000
               [Some \<lparr>a_sym = ''BTC'', a_spike = 2, a_pct_from_low = 25, a_price = 100, a_source = ''KuCoin''\<rparr>])
     ''BTC'' = Some 1000 \<and>
   \<not> delivered (process_results \<lparr>TELEGRAM_BOT_TOKEN = [], TELEGRAM_CHAT_ID = []\<rparr>
               (PostStatus True) Map.empty 1000
               [Some \<lparr>a_sym = ''BTC'', a_spike = 2, a_pct_from_low = 25, a_price = 100, a_source = ''KuCoin''\<rparr>]) \<and>
   posts (process_results \<lparr>TELEGRAM_BOT_TOKEN = [], TELEGRAM_CHAT_ID = []\<rparr>
               (PostStatus True) Map.empty 1000
               [Some \<lparr>a_sym = ''BTC'', a_spike = 2, a_pct_from_low = 25, a_price = 100, a_source = ''KuCoin''\<rparr>])
     = [] \<and>
   cooldown (process_results \<lparr>TELEGRAM_BOT_TOKEN = ''t'', TELEGRAM_CHAT_ID = ''c''\<rparr>
               (PostStatus False) Map.empty 1000
               [Some \<lparr>a_sym = ''BTC'', a_spike = 2, a_pct_from_low = 25, a_price = 100, a_source = ''KuCoin''\<rparr>])
     ''BTC'' = Some 1000 \<and>
   \<not> delivered (process_results \<lparr>TELEGRAM_BOT_TOKEN = ''t'', TELEGRAM_CHAT_ID = ''c''\<rparr>
               (PostStatus False) Map.empty 1000
               [Some \<lparr>a_sym = ''BTC'', a_spike = 2, a_pct_from_low = 25, a_price = 100, a_source = ''KuCoin''\<rparr>])"
  by (simp add: process_results_def sort_spike_desc_def send_telegram_def record_alert_def
      Let_def)

text \<open>
  Claim C4, amended. A scan hands a batch to \<open>send_telegram\<close> exactly when some symbol has
  an alert, whether or not the batch is then delivered; after the scan the cooldown map
  holds the scan's time for exactly the symbols with an alert, and every other symbol
  keeps its previous entry.
\<close>

theorem cooldown_updated_with_hand_over:
  "(handed (process_results cfg post lat now results) \<noteq> None \<longleftrightarrow>
      (\<exists>a. Some a \<in> set results)) \<and>
   (\<forall>s. cooldown (process_results cfg post lat now results) s =
      (if \<exists>a. Some a \<in> set results \<and> a_sym a = s then Some now else lat s))"
  by (simp add: cooldown_process_results handed_process_results)

theorem cooldown_updated_with_hand_over_witness:
  "handed (process_results \<lparr>TELEGRAM_BOT_TOKEN = [], TELEGRAM_CHAT_ID = []\<rparr>
               (PostStatus True) [''ETH'' \<mapsto> 5] 1000
               [Some \<lparr>a_sym = ''BTC'', a_spike = 2, a_pct_from_low = 25, a_price = 100, a_source = ''KuCoin''\<rparr>, None])
     \<noteq> None \<and>
   cooldown (process_results \<lparr>TELEGRAM_BOT_TOKEN = [], TELEGRAM_CHAT_ID = []\<rparr>
               (PostStatus True) [''ETH'' \<mapsto> 5] 1000
               [Some \<lparr>a_sym = ''BTC'', a_spike = 2, a_pct_from_low = 25, a_price = 100, a_source = ''KuCoin''\<rparr>, None])
     ''BTC'' = Some 1000 \<and>
   cooldown (process_results \<lparr>TELEGRAM_BOT_TOKEN = [], TELEGRAM_CHAT_ID = []\<rparr>
               (PostStatus True) [''ETH'' \<mapsto> 5] 1000
               [Some \<lparr>a_sym = ''BTC'', a_spike = 2, a_pct_from_low = 25, a_price = 100, a_source = ''KuCoin''\<rparr>, None])
     ''ETH'' = Some 5"
  using cooldown_updated_with_hand_over
    [of "\<lparr>TELEGRAM_BOT_TOKEN = [], TELEGRAM_CHAT_ID = []\<rparr>" "PostStatus True"
        "[''ETH'' \<mapsto> 5]" 1000
        "[Some \<lparr>a_sym = ''BTC'', a_spike = 2, a_pct_from_low = 25, a_price = 100, a_source = ''KuCoin''\<rparr>, None]"]
  by simp

text \<open>
  Claim C10. In one scan the cooldown time is recorded for every symbol with an alert,
  in the batch of ten or not, and the map after the scan is the same for every Telegram
  configuration and every outcome of the post.
\<close>

theorem cooldown_recorded_whatever_delivery:
  "(\<forall>a. Some a \<in> set results \<longrightarrow>
        cooldown (process_results cfg post lat now results) (a_sym a) = Some now) \<and>
   cooldown (process_results cfg post lat now results) =
     cooldown (process_results cfg' post' lat now results)"
  by (auto simp: cooldown_process_results)

theorem cooldown_recorded_whatever_delivery_witness:
  "cooldown (process_results \<lparr>TELEGRAM_BOT_TOKEN = [], TELEGRAM_CHAT_ID = []\<rparr> PostRaises
       Map.empty 1000
       (map (\<lambda>i. Some \<lparr>a_sym = i, a_spike = 2 + real i, a_pct_from_low = 25, a_price = 100,
                        a_source = ''KuCoin''\<rparr>) [0, 1, 2, 3, 4, 5, 6, 7, 8, 9, 10])) 0 = Some 1000 \<and>
   cooldown (process_results \<lparr>TELEGRAM_BOT_TOKEN = [], TELEGRAM_CHAT_ID = []\<rparr> PostRaises
       Map.empty 1000
       (map (\<lambda>i. Some \<lparr>a_sym = i, a_spike = 2 + real i, a_pct_from_low = 25, a_price = 100,
                        a_source = ''KuCoin''\<rparr>) [0, 1, 2, 3, 4, 5, 6, 7, 8, 9, 10])) =
   cooldown (process_results \<lparr>TELEGRAM_BOT_TOKEN = ''t'', TELEGRAM_CHAT_ID = ''c''\<rparr> (PostStatus True)
       Map.empty 1000
       (map (\<lambda>i. Some \<lparr>a_sym = i, a_spike = 2 + real i, a_pct_from_low = 25, a_price = 100,
                        a_source = ''KuCoin''\<rparr>) [0, 1, 2, 3, 4, 5, 6, 7, 8, 9, 10])) \<and>
   handed (process_results \<lparr>TELEGRAM_BOT_TOKEN = ''t'', TELEGRAM_CHAT_ID = ''c''\<rparr> (PostStatus True)
       Map.empty 1000
       (map (\<lambda>i. Some \<lparr>a_sym = i, a_spike = 2 + real i, a_pct_from_low = 25, a_price = 100,
                        a_source = ''KuCoin''\<rparr>) [0, 1, 2, 3, 4, 5, 6, 7, 8, 9, 10])) =
   Some (map (\<lambda>i. \<lparr>a_sym = i, a_spike = 2 + real i, a_pct_from_low = 25, a_price = 100,
                        a_source = ''KuCoin''\<rparr>) [10, 9, 8, 7, 6, 5, 4, 3, 2, 1])"
proof -
  let ?f = "\<lambda>i::nat. \<lparr>a_sym = i, a_spike = 2 + real i, a_pct_from_low = 25, a_price = 100,
                        a_source = ''KuCoin''\<rparr>"
  let ?rs = "map (\<lambda>i. Some (?f i)) [0, 1, 2, 3, 4, 5, 6, 7, 8, 9, 10]"
  let ?off = "\<lparr>TELEGRAM_BOT_TOKEN = [], TELEGRAM_CHAT_ID = []\<rparr>"
  let ?on = "\<lparr>TELEGRAM_BOT_TOKEN = ''t'', TELEGRAM_CHAT_ID = ''c''\<rparr>"
  note T = cooldown_recorded_whatever_delivery
    [of ?rs ?off PostRaises Map.empty 1000 ?on "PostStatus True"]
  have mem: "Some (?f 0) \<in> set ?rs" by simp
  with T have "cooldown (process_results ?off PostRaises Map.empty 1000 ?rs)
                 (a_sym (?f 0)) = Some 1000"
    by blast
  hence c0: "cooldown (process_results ?off PostRaises Map.empty 1000 ?rs) 0 = Some 1000"
    by simp
  from T have eq: "cooldown (process_results ?off PostRaises Map.empty 1000 ?rs) =
      cooldown (process_results ?on (PostStatus True) Map.empty 1000 ?rs)"
    by blast
  have h: "handed (process_results ?on (PostStatus True) Map.empty 1000 ?rs)
             = Some (map ?f [10, 9, 8, 7, 6, 5, 4, 3, 2, 1])"
    by (simp add: process_results_def sort_spike_desc_def send_telegram_def record_alert_def
        Let_def)
  from c0 eq h show ?thesis by (intro conjI)
qed

subsection \<open>Ranking\<close>






section \<open>Properties of the fall-back between exchanges\<close>

subsection \<open>Rows and the parts of the resolvers\<close>

lemma okx_row_text:
  "okx_row [IntText t, DecText o1, DecText h, DecText l, DecText cl, DecText v] =
     Inr (canonical \<lparr>c_time = t, c_open = o1, c_high = h, c_low = l, c_close = cl, c_volume = v\<rparr>)"
  by (simp add: okx_row_def int_at_def float_at_def py_index_def canonical_def)

lemma convert_rows_length: "length (convert_rows conv cs) \<le> length cs"
  by (induction cs) (auto split: sum.split)

lemma convert_rows_map:
  "list_all (\<lambda>x. conv (h x) = Inr (g x)) xs \<Longrightarrow> convert_rows conv (map h xs) = map g xs"
  by (induction xs) simp_all

lemma attempt_simps:
  "attempt (Inl e) = None" "attempt (Inr r) = r"
  by (simp_all add: attempt_def)


lemma kx_part_good:
  assumes "20 \<le> length (convert_rows conv (rev rows))"
  shows "kx_part tag conv (Http True (Rows rows)) =
           Inr (Some \<lparr>data_klines = convert_rows conv (rev rows), data_type = ''crypto'',
                      data_source = tag\<rparr>)"
proof -
  have "20 \<le> length rows"
    using assms convert_rows_length [of conv "rev rows"] by simp
  with assms show ?thesis by (auto simp: kx_part_def Let_def)
qed



lemma check_source_short:
  "length rows < 22 \<Longrightarrow> check_source s tag conv (Http True (Rows rows)) = Inr None"
  by (simp add: check_source_def)

lemma check_source_tag:
  "check_source s tag conv r = Inr (Some a) \<Longrightarrow> a_source a = tag \<and> a_sym a = s"
  by (auto simp: check_source_def bind_exn_eq_Inr split: response.splits payload.splits
      if_splits option.splits)




subsection \<open>Exceptions inside \<open>check_coin\<close>\<close>

lemma map_exn_raises:
  "x \<in> set xs \<Longrightarrow> f x = Inl e \<Longrightarrow> \<exists>e'. map_exn f xs = Inl e'"
proof (induction xs)
  case Nil
  then show ?case by simp
next
  case (Cons y ys)
  then show ?case by (cases "f y"; cases "map_exn f ys") auto
qed

lemma check_source_canonical:
  assumes rows: "map_exn conv (rev rows) = Inr (map canonical cs)"
    and len: "22 \<le> length rows"
    and det: "detect_volume_spike s (map canonical cs) = Inr (Some sp)"
  shows "check_source s tag conv (Http True (Rows rows)) =
           Inr (Some \<lparr>a_sym = s, a_spike = ratio sp, a_pct_from_low = pct_from_low sp,
                      a_price = c_close (last cs), a_source = tag\<rparr>)"
proof -
  have n: "length cs = length rows"
    using map_exn_length [OF rows] by simp
  hence ne: "cs \<noteq> []" using len by auto
  have "py_index (map canonical cs) (- 1) = Inr (canonical (last cs))"
    using py_index_neg [of 1 "map canonical cs"] ne len n
    by (simp add: last_conv_nth)
  with rows len det show ?thesis
    by (simp add: check_source_def float_at_canonical)
qed

lemma check_source_raises:
  assumes "22 \<le> length rows" and "x \<in> set rows" and "conv x = Inl e"
  shows "\<exists>e'. check_source s tag conv (Http True (Rows rows)) = Inl e'"
proof -
  from assms(2,3) obtain e' where "map_exn conv (rev rows) = Inl e'"
    using map_exn_raises [of x "rev rows" conv e] by auto
  with assms(1) show ?thesis by (simp add: check_source_def)
qed

lemma check_coin_exception:
  "\<not> should_skip lat s now \<Longrightarrow> check_source s ''KuCoin'' kucoin_row (env KuCoin s) = Inl e \<Longrightarrow>
   check_coin lat now env s = ([KuCoin], None)"
  by (simp add: check_coin_def)

lemma kx_part_raises:
  "kx_part tag conv Failed = Inl RequestException"
  "kx_part tag conv (Http True BadJson) = Inl ValueError"
  by (simp_all add: kx_part_def)

lemma fetch_one_crypto_goes_on:
  "attempt (kx_part ''kucoin'' kucoin_row (env KuCoin s)) = None \<Longrightarrow>
   take 2 (fst (fetch_one_crypto env s)) = [KuCoin, OKX]"
  by (simp add: fetch_one_crypto_def split: option.splits)

text \<open>
  Claim C5 says that a timeout, transport error or malformed payload of one adapter makes
  the resolver go on to the next adapter. \<open>check_coin\<close> does not: its two exchanges share
  one \<open>try\<close> block. With no cooldown entry for BTC, when the KuCoin request raises, or when
  the newest of 22 KuCoin rows has a volume that does not convert, \<open>check_coin\<close> returns
  \<open>None\<close> and OKX is never asked, although OKX answers with a series on which the
  detector fires: with an empty KuCoin answer the same OKX answer yields the alert.
  \<open>fetch_one_crypto\<close>, whose parts have a \<open>try\<close> block each, does ask OKX after the KuCoin
  request raises.
\<close>

theorem check_coin_abandons_symbol_on_exception:
  "check_coin Map.empty 1000000
     (\<lambda>ex s. case ex of
         KuCoin \<Rightarrow> Failed
       | _ \<Rightarrow> Http True (Rows
           ([IntText 21, DecText 100, DecText 105, DecText 90, DecText 100, DecText 20] #
            replicate 21 [IntText 0, DecText 100, DecText 110, DecText 80, DecText 100, DecText 10])))
     ''BTC'' = ([KuCoin], None) \<and>
   check_coin Map.empty 1000000
     (\<lambda>ex s. case ex of
         KuCoin \<Rightarrow> Http True (Rows
           ([IntText 21, DecText 100, DecText 100, DecText 105, DecText 90, Junk] #
            replicate 21 [IntText 0, DecText 100, DecText 100, DecText 110, DecText 80, DecText 10]))
       | _ \<Rightarrow> Http True (Rows
           ([IntText 21, DecText 100, DecText 105, DecText 90, DecText 100, DecText 20] #
            replicate 21 [IntText 0, DecText 100, DecText 110, DecText 80, DecText 100, DecText 10])))
     ''BTC'' = ([KuCoin], None) \<and>
   check_coin Map.empty 1000000
     (\<lambda>ex s. case ex of
         KuCoin \<Rightarrow> Http True (Rows [])
       | _ \<Rightarrow> Http True (Rows
           ([IntText 21, DecText 100, DecText 105, DecText 90, DecText 100, DecText 20] #
            replicate 21 [IntText 0, DecText 100, DecText 110, DecText 80, DecText 100, DecText 10])))
     ''BTC'' =
     ([KuCoin, OKX],
      Some \<lparr>a_sym = ''BTC'', a_spike = 2, a_pct_from_low = 25, a_price = 100, a_source = ''OKX''\<rparr>) \<and>
   fst (fetch_one_crypto
     (\<lambda>ex s. case ex of
         KuCoin \<Rightarrow> Failed
       | _ \<Rightarrow> Http True (Rows
           ([IntText 21, DecText 100, DecText 105, DecText 90, DecText 100, DecText 20] #
            replicate 21 [IntText 0, DecText 100, DecText 110, DecText 80, DecText 100, DecText 10])))
     ''BTC'') = [KuCoin, OKX]"
proof -
  let ?r1 = "[IntText 21, DecText 100, DecText 105, DecText 90, DecText 100, DecText 20]"
  let ?r0 = "[IntText 0, DecText 100, DecText 110, DecText 80, DecText 100, DecText 10]"
  let ?bad = "[IntText 21, DecText 100, DecText 100, DecText 105, DecText 90, Junk]"
  let ?k0 = "[IntText 0, DecText 100, DecText 100, DecText 110, DecText 80, DecText 10]"
  let ?c0 = "\<lparr>c_time = 0, c_open = 100, c_high = 110, c_low = 80, c_close = 100, c_volume = 10\<rparr>"
  let ?c1 = "\<lparr>c_time = 21, c_open = 100, c_high = 105, c_low = 90, c_close = 100, c_volume = 20\<rparr>"
  let ?cs = "replicate 21 ?c0 @ [?c1]"
  let ?okx = "Http True (Rows (?r1 # replicate 21 ?r0))"
  let ?wire = "\<lambda>c. [IntText (c_time c), DecText (c_open c), DecText (c_high c), DecText (c_low c),
                     DecText (c_close c), DecText (c_volume c)]"
  have ns: "\<not> should_skip Map.empty ''BTC'' (1000000::real)"
    by (simp add: should_skip_def ALERT_COOLDOWN_SECONDS_def)
  have "map_exn okx_row (map ?wire ?cs) = Inr (map canonical ?cs)"
    by (rule map_exn_map) (simp add: list_all_iff okx_row_text)
  hence rows: "map_exn okx_row (rev (?r1 # replicate 21 ?r0)) = Inr (map canonical ?cs)"
    by simp
  have rnd: "py_round 25 (Suc 0) = 25"
    using round_half_even_of_int [of 250] by (simp add: py_round_def)
  have det: "detect_volume_spike ''BTC'' (map canonical ?cs) =
               Inr (Some \<lparr>ratio = 2, pct_from_low = 25\<rparr>)"
    using detect_canonical [of ?cs ?c1 ?c0 10 100 80 "''BTC''"]
    by (simp add: nth_append rnd sum_list_replicate VOLUME_SPIKE_MULTIPLIER_def py_round_two)
  have okx: "check_source ''BTC'' ''OKX'' okx_row ?okx =
      Inr (Some \<lparr>a_sym = ''BTC'', a_spike = 2, a_pct_from_low = 25, a_price = 100,
                 a_source = ''OKX''\<rparr>)"
    using check_source_canonical [OF rows _ det, of "''OKX''"] by simp
  have bad: "\<exists>e. check_source ''BTC'' ''KuCoin'' kucoin_row (Http True (Rows (?bad # replicate 21 ?k0)))
               = Inl e"
    by (rule check_source_raises [of _ ?bad _ ValueError])
       (simp_all add: kucoin_row_def int_at_def float_at_def py_index_def)
  have 1: "check_coin Map.empty 1000000 (\<lambda>ex s. case ex of KuCoin \<Rightarrow> Failed | _ \<Rightarrow> ?okx) ''BTC''
             = ([KuCoin], None)"
    by (rule check_coin_exception [OF ns, of _ RequestException]) (simp add: check_source_def)
  have 2: "check_coin Map.empty 1000000
             (\<lambda>ex s. case ex of KuCoin \<Rightarrow> Http True (Rows (?bad # replicate 21 ?k0)) | _ \<Rightarrow> ?okx)
             ''BTC'' = ([KuCoin], None)"
    using bad check_coin_exception [OF ns] by auto
  have 3: "check_coin Map.empty 1000000
             (\<lambda>ex s. case ex of KuCoin \<Rightarrow> Http True (Rows []) | _ \<Rightarrow> ?okx) ''BTC'' =
           ([KuCoin, OKX],
            Some \<lparr>a_sym = ''BTC'', a_spike = 2, a_pct_from_low = 25, a_price = 100,
                  a_source = ''OKX''\<rparr>)"
    using ns okx by (simp add: check_coin_def check_source_short)
  have "convert_rows okx_row (map ?wire ?cs) = map canonical ?cs"
    by (rule convert_rows_map) (simp add: list_all_iff okx_row_text)
  hence "convert_rows okx_row (rev (?r1 # replicate 21 ?r0)) = map canonical ?cs"
    by simp
  hence 4: "fst (fetch_one_crypto (\<lambda>ex s. case ex of KuCoin \<Rightarrow> Failed | _ \<Rightarrow> ?okx) ''BTC'')
             = [KuCoin, OKX]"
    by (simp add: fetch_one_crypto_def kx_part_raises attempt_simps kx_part_good)
  from 1 2 3 4 show ?thesis by (intro conjI)
qed

subsection \<open>The scan as a whole\<close>

lemma check_coin_sym: "snd (check_coin lat now env s) = Some a \<Longrightarrow> a_sym a = s"
  using check_source_tag [of s "''KuCoin''" kucoin_row "env KuCoin s" a]
    check_source_tag [of s "''OKX''" okx_row "env OKX s" a]
  by (auto simp: check_coin_def split: if_splits sum.splits option.splits)

lemma run_monitor_scan_cooldown:
  "cooldown (run_monitor_scan cfg post env lat coins now) s =
     (if s \<in> set coins \<and> snd (check_coin lat now env s) \<noteq> None then Some now else lat s)"
proof -
  have "(\<exists>a. Some a \<in> set (map (\<lambda>s. snd (check_coin lat now env s)) coins) \<and> a_sym a = s)
          \<longleftrightarrow> s \<in> set coins \<and> snd (check_coin lat now env s) \<noteq> None"
  proof
    assume "\<exists>a. Some a \<in> set (map (\<lambda>s. snd (check_coin lat now env s)) coins) \<and> a_sym a = s"
    then obtain a x where "x \<in> set coins" "snd (check_coin lat now env x) = Some a" "a_sym a = s"
      by (auto simp: image_iff) (metis)
    moreover from this have "x = s" using check_coin_sym [of lat now env x a] by simp
    ultimately show "s \<in> set coins \<and> snd (check_coin lat now env s) \<noteq> None" by simp
  next
    assume r: "s \<in> set coins \<and> snd (check_coin lat now env s) \<noteq> None"
    then obtain a where a: "snd (check_coin lat now env s) = Some a" by auto
    hence "a_sym a = s" by (rule check_coin_sym)
    with r a show "\<exists>a. Some a \<in> set (map (\<lambda>s. snd (check_coin lat now env s)) coins) \<and> a_sym a = s"
      by (intro exI [of _ a]) (auto simp: image_iff intro!: bexI [of _ s])
  qed
  thus ?thesis
    by (simp add: run_monitor_scan_def cooldown_process_results)
qed

section \<open>Properties of the universe refresh\<close>

lemma collect_bases_keeps:
  "set coins \<inter> EXCLUDE = {} \<Longrightarrow>
   set (snd (collect_bases accept key es seen coins)) \<inter> EXCLUDE = {}"
proof (induction es arbitrary: seen coins)
  case Nil
  then show ?case by simp
next
  case (Cons s es)
  then show ?case
    by (auto split: sum.splits bool.splits)
qed

lemma collect_bases_distinct:
  "set coins = seen \<Longrightarrow> distinct coins \<Longrightarrow>
   distinct (snd (collect_bases accept key es seen coins))"
proof (induction es arbitrary: seen coins)
  case Nil
  then show ?case by simp
next
  case (Cons s es)
  show ?case
  proof (cases "accept s")
    case (Inl e)
    with Cons.prems show ?thesis by simp
  next
    case (Inr ok)
    show ?thesis
    proof (cases ok)
      case False
      have "distinct (snd (collect_bases accept key es seen coins))"
        using Cons.prems by (intro Cons.IH)
      with False Inr show ?thesis by simp
    next
      case True
      show ?thesis
      proof (cases "item s key")
        case (Inl e)
        with True Inr Cons.prems show ?thesis by simp
      next
        case base: (Inr base)
        show ?thesis
        proof (cases "base \<notin> seen \<and> base \<notin> EXCLUDE")
          case yes: True
          have "distinct (snd (collect_bases accept key es (insert base seen) (coins @ [base])))"
            using Cons.prems yes by (intro Cons.IH) auto
          with True Inr base yes show ?thesis by simp
        next
          case no: False
          have "distinct (snd (collect_bases accept key es seen coins))"
            using Cons.prems by (intro Cons.IH)
          with True Inr base no show ?thesis by auto
        qed
      qed
    qed
  qed
qed

lemma try_listing_done: "try_listing accept key r coins = (coins', True) \<Longrightarrow> coins' \<noteq> []"
  by (auto simp: try_listing_def split: listing.splits listing_body.splits if_splits prod.splits
      option.splits)

lemma try_listing_keeps:
  assumes "set coins \<inter> EXCLUDE = {}"
  shows "set (fst (try_listing accept key r coins)) \<inter> EXCLUDE = {}"
proof -
  have "set c \<inter> EXCLUDE = {}" if "collect_bases accept key es {} coins = (x, c)" for es x c
    using collect_bases_keeps [OF assms, of accept key es "{}"] that by simp
  with assms show ?thesis
    unfolding try_listing_def
    by (simp split: listing.splits listing_body.splits prod.splits option.splits)
qed

lemma try_listing_unanswered:
  "r = ListingFailed \<or> r = Listing False body \<or> r = Listing ok Unreadable \<Longrightarrow>
   try_listing accept key r coins = (coins, False)"
  by (auto simp: try_listing_def)

lemma fetch_monitor_coins_never_empties:
  "monitor_coins \<noteq> [] \<Longrightarrow> fetch_monitor_coins env monitor_coins \<noteq> []"
  by (auto simp: fetch_monitor_coins_def split: prod.splits dest: try_listing_done)

lemma fetch_monitor_coins_excludes:
  "fetch_monitor_coins env monitor_coins = monitor_coins \<or>
   set (fetch_monitor_coins env monitor_coins) \<inter> EXCLUDE = {}"
proof -
  let ?t1 = "try_listing binance_accept ''baseAsset'' (binance_info env) []"
  let ?t2 = "try_listing kucoin_accept ''baseCurrency'' (kucoin_symbols env) (fst ?t1)"
  let ?t3 = "try_listing okx_accept ''baseCcy'' (okx_instruments env) (fst ?t2)"
  have 1: "set (fst ?t1) \<inter> EXCLUDE = {}" by (rule try_listing_keeps) simp
  have 2: "set (fst ?t2) \<inter> EXCLUDE = {}" using 1 by (rule try_listing_keeps)
  have 3: "set (fst ?t3) \<inter> EXCLUDE = {}" using 2 by (rule try_listing_keeps)
  show ?thesis
    using 1 2 3 by (auto simp: fetch_monitor_coins_def split: prod.splits)
qed

lemma fetch_monitor_coins_all_unanswered:
  assumes "binance_info env = ListingFailed \<or> binance_info env = Listing False b1 \<or>
           binance_info env = Listing ok1 Unreadable"
    and "kucoin_symbols env = ListingFailed \<or> kucoin_symbols env = Listing False b2 \<or>
           kucoin_symbols env = Listing ok2 Unreadable"
    and "okx_instruments env = ListingFailed \<or> okx_instruments env = Listing False b3 \<or>
           okx_instruments env = Listing ok3 Unreadable"
  shows "fetch_monitor_coins env monitor_coins = monitor_coins"
  using try_listing_unanswered [OF assms(1)] try_listing_unanswered [OF assms(2)]
    try_listing_unanswered [OF assms(3)]
  by (simp add: fetch_monitor_coins_def)

text \<open>When no loop is left by an exception, each block starts from an empty list.\<close>

lemma try_listing_clean:
  assumes "\<And>es. r = Listing True (Entries es) \<Longrightarrow> fst (collect_bases accept key es {} []) = None"
  shows "try_listing accept key r [] = ([], False) \<or>
         (\<exists>coins. try_listing accept key r [] = (coins, True) \<and> coins \<noteq> [] \<and> distinct coins \<and>
                  set coins \<inter> EXCLUDE = {})"
proof (cases r)
  case ListingFailed
  then show ?thesis by (simp add: try_listing_def)
next
  case (Listing ok body)
  show ?thesis
  proof (cases "ok \<and> (\<exists>es. body = Entries es)")
    case False
    with Listing show ?thesis by (cases body) (auto simp: try_listing_def)
  next
    case True
    then obtain es where es: "r = Listing True (Entries es)" using Listing by auto
    obtain x coins where c: "collect_bases accept key es {} [] = (x, coins)" by fastforce
    have x: "x = None" using assms [OF es] c by simp
    have d: "distinct coins"
      using collect_bases_distinct [of "[]" "{}" accept key es] c by simp
    have k: "set coins \<inter> EXCLUDE = {}"
      using collect_bases_keeps [of "[]" accept key es "{}"] c by simp
    show ?thesis using es c x d k by (auto simp: try_listing_def)
  qed
qed

lemma fetch_monitor_coins_clean:
  assumes "\<And>es. binance_info env = Listing True (Entries es) \<Longrightarrow>
             fst (collect_bases binance_accept ''baseAsset'' es {} []) = None"
    and "\<And>es. kucoin_symbols env = Listing True (Entries es) \<Longrightarrow>
             fst (collect_bases kucoin_accept ''baseCurrency'' es {} []) = None"
    and "\<And>es. okx_instruments env = Listing True (Entries es) \<Longrightarrow>
             fst (collect_bases okx_accept ''baseCcy'' es {} []) = None"
  shows "fetch_monitor_coins env monitor_coins = monitor_coins \<or>
         (distinct (fetch_monitor_coins env monitor_coins) \<and>
          set (fetch_monitor_coins env monitor_coins) \<inter> EXCLUDE = {})"
  using try_listing_clean [of "binance_info env" binance_accept "''baseAsset''", OF assms(1)]
    try_listing_clean [of "kucoin_symbols env" kucoin_accept "''baseCurrency''", OF assms(2)]
    try_listing_clean [of "okx_instruments env" okx_accept "''baseCcy''", OF assms(3)]
  by (auto simp: fetch_monitor_coins_def)

text \<open>When every block, started on an empty list, ends without a symbol and without
  returning, the universe stays as it was; on the first run it is the built-in list.\<close>

lemma fetch_monitor_coins_no_symbols:
  assumes "try_listing binance_accept ''baseAsset'' (binance_info env) [] = ([], False)"
    and "try_listing kucoin_accept ''baseCurrency'' (kucoin_symbols env) [] = ([], False)"
    and "try_listing okx_accept ''baseCcy'' (okx_instruments env) [] = ([], False)"
  shows "fetch_monitor_coins env monitor_coins = monitor_coins"
  using assms by (simp add: fetch_monitor_coins_def)

lemma fetch_monitor_coins_first_run:
  "fetch_monitor_coins env MONITOR_COINS_BUILTIN \<noteq> []"
  by (rule fetch_monitor_coins_never_empties) (simp add: MONITOR_COINS_BUILTIN_def)

text \<open>
  Claim C9 says that a refresh leaves the universe as it was when every listing query
  fails or yields no symbol, and that a universe it installs has no duplicate. Both fail
  when a loop is left by an exception after it has appended to \<open>coins\<close>: the list is shared
  by the three blocks and not emptied, while \<open>seen\<close> starts empty in each. Here the second
  Binance entry has no \<open>baseAsset\<close>, so the Binance block fails with BTC already in
  \<open>coins\<close>. With an empty KuCoin listing and a failing OKX request the universe
  \<open>[ETH, SOL]\<close> is replaced by \<open>[BTC]\<close>; with BTC in the KuCoin listing it is replaced by
  \<open>[BTC, BTC]\<close>.
\<close>

theorem refresh_keeps_coins_of_failed_listing:
  "fetch_monitor_coins
     \<lparr>binance_info = Listing True (Entries
         [Obj [(''baseAsset'', JS ''BTC''), (''quoteAsset'', JS ''USDT''), (''status'', JS ''TRADING''),
               (''isSpotTradingAllowed'', JB True)],
          Obj [(''quoteAsset'', JS ''USDT''), (''status'', JS ''TRADING''),
               (''isSpotTradingAllowed'', JB True)]]),
      kucoin_symbols = Listing True (Entries []),
      okx_instruments = ListingFailed\<rparr>
     [JS ''ETH'', JS ''SOL''] = [JS ''BTC''] \<and>
   fetch_monitor_coins
     \<lparr>binance_info = Listing True (Entries
         [Obj [(''baseAsset'', JS ''BTC''), (''quoteAsset'', JS ''USDT''), (''status'', JS ''TRADING''),
               (''isSpotTradingAllowed'', JB True)],
          Obj [(''quoteAsset'', JS ''USDT''), (''status'', JS ''TRADING''),
               (''isSpotTradingAllowed'', JB True)]]),
      kucoin_symbols = Listing True (Entries
         [Obj [(''baseCurrency'', JS ''BTC''), (''quoteCurrency'', JS ''USDT''),
               (''enableTrading'', JB True)]]),
      okx_instruments = ListingFailed\<rparr>
     [JS ''ETH'', JS ''SOL''] = [JS ''BTC'', JS ''BTC'']"
  by (simp add: fetch_monitor_coins_def try_listing_def binance_accept_def kucoin_accept_def
      get_field_def item_def EXCLUDE_def)

end
